theory Spec2Isabelle
  imports Complex_Main "HOL-Library.Sublist"
begin

section \<open>Prices and their comparison\<close>

text \<open>
  The columns \<^verbatim>\<open>open\<close>, \<open>high\<close>, \<open>low\<close> and \<open>close\<close> of the fetched frame hold
  floating-point numbers, and \<^verbatim>\<open>check_conditions\<close> only ever compares them with
  \<^verbatim>\<open>==\<close>. Two floats compare equal exactly when neither is a NaN and both denote
  the same number (the two zeros denote the same number), so a float is modelled by the
  value it denotes: a real number, one of the two infinities, or NaN.
\<close>

datatype price = Num real | PosInf | NegInf | NaN

definition py_eq :: "price \<Rightarrow> price \<Rightarrow> bool" where
  \<comment> \<open>the operator \<^verbatim>\<open>==\<close> on two floats\<close>
  "py_eq a b = (a \<noteq> NaN \<and> a = b)"

section \<open>The fetched window\<close>

text \<open>
  \<^verbatim>\<open>pd.DataFrame(data)\<close> is built from the list of candles the data source returns;
  each candle has the six keys below, so a non-empty frame has all six columns. The
  frame is modelled as the list of its rows; \<^verbatim>\<open>df.empty\<close> is the empty list.
\<close>

record datetime =
  year :: nat
  month :: nat
  day :: nat
  hour :: nat
  minute :: nat
  second :: nat
  microsecond :: nat

record row =
  col_date :: datetime
  col_open :: price
  col_high :: price
  col_low :: price
  col_close :: price
  col_volume :: int

section \<open>The classifier\<close>

text \<open>
  \<^verbatim>\<open>
  def check_conditions(df):
      if df.empty:
          return "No Data"
      open_price = df["open"].iloc[0]
      high_price = df["high"].iloc[0]
      low_price = df["low"].iloc[0]
      prev_close = df["close"].iloc[-1]
      if open_price == low_price and prev_close == open_price:
          return "BUY"
      elif open_price == low_price:
          return "BUY"
      elif prev_close == high_price:
          return "SELL"
      elif open_price == high_price:
          return "SELL"
      elif prev_close == open_price and open_price == high_price:
          return "SELL"
      elif low_price == prev_close:
          return "BUY"
      else:
          return "HOLD"
  \<close>
  \<^verbatim>\<open>iloc[0]\<close> and \<^verbatim>\<open>iloc[-1]\<close> are read only after the emptiness test, where they
  are the first and the last row.
\<close>

definition check_conditions :: "row list \<Rightarrow> string" where
  "check_conditions df =
     (if df = [] then ''No Data''
      else
        let open_price = col_open (hd df);
            high_price = col_high (hd df);
            low_price = col_low (hd df);
            prev_close = col_close (last df)
        in
          if py_eq open_price low_price \<and> py_eq prev_close open_price then ''BUY''
          else if py_eq open_price low_price then ''BUY''
          else if py_eq prev_close high_price then ''SELL''
          else if py_eq open_price high_price then ''SELL''
          else if py_eq prev_close open_price \<and> py_eq open_price high_price then ''SELL''
          else if py_eq low_price prev_close then ''BUY''
          else ''HOLD'')"

subsection \<open>The classifier as the specification words it\<close>

text \<open>
  The specification speaks of a candle together with a previous close, or of absent
  data, and of eight rules tried in order. The definitions of this subsection follow
  those words; they are compared with \<^const>\<open>check_conditions\<close> below.
\<close>

record candle =
  c_open :: price
  c_high :: price
  c_low :: price
  c_close :: price

datatype classifier_input = No_Data | Quote candle price

definition window_input :: "row list \<Rightarrow> classifier_input" where
  \<comment> \<open>what the source reads of a frame: the candle of the first row, and the close of
      the last row as the previous close\<close>
  "window_input df =
     (case df of
        [] \<Rightarrow> No_Data
      | r # rs \<Rightarrow>
          Quote \<lparr>c_open = col_open r, c_high = col_high r, c_low = col_low r,
                 c_close = col_close r\<rparr> (col_close (last df)))"

definition rule2 :: "candle \<Rightarrow> price \<Rightarrow> bool" where
  "rule2 c pc = (py_eq (c_open c) (c_low c) \<and> py_eq pc (c_open c))"

definition rule3 :: "candle \<Rightarrow> price \<Rightarrow> bool" where
  "rule3 c pc = py_eq (c_open c) (c_low c)"

definition rule4 :: "candle \<Rightarrow> price \<Rightarrow> bool" where
  "rule4 c pc = py_eq pc (c_high c)"

definition rule5 :: "candle \<Rightarrow> price \<Rightarrow> bool" where
  "rule5 c pc = py_eq (c_open c) (c_high c)"

definition rule6 :: "candle \<Rightarrow> price \<Rightarrow> bool" where
  "rule6 c pc = (py_eq pc (c_open c) \<and> py_eq (c_open c) (c_high c))"

definition rule7 :: "candle \<Rightarrow> price \<Rightarrow> bool" where
  "rule7 c pc = py_eq (c_low c) pc"

definition rules :: "((candle \<Rightarrow> price \<Rightarrow> bool) \<times> string) list" where
  \<comment> \<open>rules 2 to 7 in their priority order, each with its label\<close>
  "rules =
     [(rule2, ''BUY''), (rule3, ''BUY''), (rule4, ''SELL''), (rule5, ''SELL''),
      (rule6, ''SELL''), (rule7, ''BUY'')]"

fun first_match :: "((candle \<Rightarrow> price \<Rightarrow> bool) \<times> string) list \<Rightarrow> candle \<Rightarrow> price \<Rightarrow> string" where
  "first_match [] c pc = ''HOLD''"
| "first_match ((cond, label) # rs) c pc = (if cond c pc then label else first_match rs c pc)"

definition classify :: "((candle \<Rightarrow> price \<Rightarrow> bool) \<times> string) list \<Rightarrow> classifier_input \<Rightarrow> string" where
  \<comment> \<open>rule 1, then the given rules by first match, then rule 8\<close>
  "classify rs inp = (case inp of No_Data \<Rightarrow> ''No Data'' | Quote c pc \<Rightarrow> first_match rs c pc)"

definition rules_without_rule6 :: "((candle \<Rightarrow> price \<Rightarrow> bool) \<times> string) list" where
  "rules_without_rule6 =
     [(rule2, ''BUY''), (rule3, ''BUY''), (rule4, ''SELL''), (rule5, ''SELL''),
      (rule7, ''BUY'')]"

definition check_conditions_without_rule6 :: "row list \<Rightarrow> string" where
  \<comment> \<open>\<^const>\<open>check_conditions\<close> with its fifth \<^verbatim>\<open>elif\<close> branch deleted\<close>
  "check_conditions_without_rule6 df =
     (if df = [] then ''No Data''
      else
        let open_price = col_open (hd df);
            high_price = col_high (hd df);
            low_price = col_low (hd df);
            prev_close = col_close (last df)
        in
          if py_eq open_price low_price \<and> py_eq prev_close open_price then ''BUY''
          else if py_eq open_price low_price then ''BUY''
          else if py_eq prev_close high_price then ''SELL''
          else if py_eq open_price high_price then ''SELL''
          else if py_eq low_price prev_close then ''BUY''
          else ''HOLD'')"

definition labels :: "string set" where
  "labels = {''BUY'', ''SELL'', ''HOLD'', ''No Data''}"

section \<open>The timestamp\<close>

text \<open>
  \<^verbatim>\<open>datetime.now().strftime("%Y-%m-%d %H:%M:%S")\<close>: the clock is an input of the
  model, a naive local date and time, and the format is fixed. \<^verbatim>\<open>%m\<close>, \<open>%d\<close>, \<open>%H\<close>,
  \<open>%M\<close> and \<open>%S\<close> print a decimal number padded with zeros to two characters;
  \<^verbatim>\<open>%Y\<close> prints the year in decimal (the C library does not pad it). The format
  has no directive for the microseconds of the clock, which are dropped.
\<close>

definition digit_char :: "nat \<Rightarrow> char" where
  "digit_char d = ''0123456789'' ! (d mod 10)"

fun decimal :: "nat \<Rightarrow> string" where
  "decimal n = (if n < 10 then [digit_char n] else decimal (n div 10) @ [digit_char (n mod 10)])"

declare decimal.simps [simp del]

definition zero_pad :: "nat \<Rightarrow> string \<Rightarrow> string" where
  "zero_pad w s = replicate (w - length s) (CHR ''0'') @ s"

definition strftime :: "datetime \<Rightarrow> string" where
  "strftime dt =
     decimal (year dt) @ ''-'' @ zero_pad 2 (decimal (month dt)) @ ''-''
       @ zero_pad 2 (decimal (day dt)) @ '' '' @ zero_pad 2 (decimal (hour dt)) @ '':''
       @ zero_pad 2 (decimal (minute dt)) @ '':'' @ zero_pad 2 (decimal (second dt))"

definition valid_now :: "datetime \<Rightarrow> bool" where
  \<comment> \<open>a date and time of a clock that shows a four-digit year\<close>
  "valid_now dt =
     (1000 \<le> year dt \<and> year dt \<le> 9999 \<and> 1 \<le> month dt \<and> month dt \<le> 12
      \<and> 1 \<le> day dt \<and> day dt \<le> 31 \<and> hour dt < 24 \<and> minute dt < 60 \<and> second dt < 60
      \<and> microsecond dt < 1000000)"

definition is_digit :: "char \<Rightarrow> bool" where
  "is_digit c = (c \<in> set ''0123456789'')"

fun matches :: "string \<Rightarrow> string \<Rightarrow> bool" where
  \<comment> \<open>\<open>matches pattern s\<close>: in the pattern, \<open>d\<close> stands for one decimal digit and every
      other character for itself\<close>
  "matches [] [] = True"
| "matches (p # ps) (c # cs) = ((if p = CHR ''d'' then is_digit c else c = p) \<and> matches ps cs)"
| "matches _ _ = False"

definition timestamp_format :: "string \<Rightarrow> bool" where
  \<comment> \<open>YYYY-MM-DD HH:MM:SS\<close>
  "timestamp_format s = matches ''dddd-dd-dd dd:dd:dd'' s"

text \<open>
  Reading a timestamp of the format YYYY-MM-DD HH:MM:SS back: the six numbers at their
  places, as a date and time without microseconds; a string of another shape, or with
  a number out of its range, is not read.
\<close>

definition digit_value :: "char \<Rightarrow> nat option" where
  "digit_value c = map_of (zip ''0123456789'' [0..<10]) c"

fun digits_value :: "nat \<Rightarrow> string \<Rightarrow> nat option" where
  "digits_value acc [] = Some acc"
| "digits_value acc (c # cs) =
     (case digit_value c of None \<Rightarrow> None | Some d \<Rightarrow> digits_value (10 * acc + d) cs)"

definition number_at :: "nat \<Rightarrow> nat \<Rightarrow> string \<Rightarrow> nat option" where
  \<comment> \<open>the number written in the \<open>n\<close> characters from position \<open>i\<close>\<close>
  "number_at i n s = digits_value 0 (take n (drop i s))"

definition parse_timestamp :: "string \<Rightarrow> datetime option" where
  "parse_timestamp s =
     (if length s = 19 \<and> s ! 4 = CHR ''-'' \<and> s ! 7 = CHR ''-'' \<and> s ! 10 = CHR '' ''
         \<and> s ! 13 = CHR '':'' \<and> s ! 16 = CHR '':''
      then
        Option.bind (number_at 0 4 s) (\<lambda>y.
        Option.bind (number_at 5 2 s) (\<lambda>mo.
        Option.bind (number_at 8 2 s) (\<lambda>d.
        Option.bind (number_at 11 2 s) (\<lambda>h.
        Option.bind (number_at 14 2 s) (\<lambda>mi.
        Option.bind (number_at 17 2 s) (\<lambda>se.
          let dt = \<lparr>year = y, month = mo, day = d, hour = h, minute = mi, second = se,
                    microsecond = 0\<rparr>
          in if valid_now dt then Some dt else None))))))
      else None)"

section \<open>The signal log\<close>

text \<open>
  The log is the table \<^verbatim>\<open>signals (timestamp TEXT, signal TEXT)\<close> of the database file
  \<^verbatim>\<open>trade_signals.db\<close>. The file may not have the table yet (\<open>None\<close>); with the
  table, the state is the list of its rows in insertion order, which is the order in
  which \<^verbatim>\<open>SELECT * FROM signals\<close> returns them.
\<close>

type_synonym signal = "string \<times> string"

type_synonym database = "signal list option"

definition table_rows :: "database \<Rightarrow> signal list" where
  "table_rows db = (case db of None \<Rightarrow> [] | Some rs \<Rightarrow> rs)"

definition create_table_if_not_exists :: "database \<Rightarrow> database" where
  "create_table_if_not_exists db = Some (table_rows db)"

text \<open>
  \<^verbatim>\<open>
  def record_signal(signal):
      conn = sqlite3.connect('trade_signals.db')
      c = conn.cursor()
      c.execute('''CREATE TABLE IF NOT EXISTS signals
                   (timestamp TEXT, signal TEXT)''')
      c.execute("INSERT INTO signals VALUES (?, ?)",
                (datetime.now().strftime("%Y-%m-%d %H:%M:%S"), signal))
      conn.commit()
      conn.close()
  \<close>
  The store is external: whether one of the four calls that reach the database file
  raises is an input of the model (the stage and the message of the exception). The
  function catches nothing, so the exception leaves it. The table is created outside a
  transaction; the inserted row is in the table only once \<^verbatim>\<open>commit\<close> has returned.
\<close>

datatype stage = Connect | Create_Table | Insert | Commit

datatype error = Sqlite_Error stage string | No_Such_Table

definition record_signal ::
  "(stage \<times> string) option \<Rightarrow> datetime \<Rightarrow> string \<Rightarrow> database \<Rightarrow> (error \<times> database) + database" where
  "record_signal fault now signal db =
     (case fault of
        Some (Connect, msg) \<Rightarrow> Inl (Sqlite_Error Connect msg, db)
      | Some (Create_Table, msg) \<Rightarrow> Inl (Sqlite_Error Create_Table msg, db)
      | Some (Insert, msg) \<Rightarrow> Inl (Sqlite_Error Insert msg, create_table_if_not_exists db)
      | Some (Commit, msg) \<Rightarrow> Inl (Sqlite_Error Commit msg, create_table_if_not_exists db)
      | None \<Rightarrow>
          Inr (Some (table_rows (create_table_if_not_exists db) @ [(strftime now, signal)])))"

text \<open>
  The read path: \<^verbatim>\<open>pd.read_sql("SELECT * FROM signals", conn)\<close>. It does not create
  the table, and raises when there is none.
\<close>

definition read_history :: "database \<Rightarrow> error + signal list" where
  "read_history db = (case db of None \<Rightarrow> Inl No_Such_Table | Some rs \<Rightarrow> Inr rs)"

fun record_signals :: "(datetime \<times> string) list \<Rightarrow> database \<Rightarrow> (error \<times> database) + database" where
  \<comment> \<open>sequential calls of \<^const>\<open>record_signal\<close> on an available store, one after the other\<close>
  "record_signals [] db = Inr db"
| "record_signals ((now, signal) # xs) db =
     (case record_signal None now signal db of
        Inl e \<Rightarrow> Inl e
      | Inr db' \<Rightarrow> record_signals xs db')"

section \<open>Fetching the candle and the Check Signal button\<close>

text \<open>
  \<^verbatim>\<open>
  def fetch_candle_data(kite, instrument_token, date, interval="15minute"):
      try:
          to_date = date + pd.Timedelta(minutes=15)
          data = kite.historical_data(...)
          return pd.DataFrame(data)
      except Exception as e:
          st.error(f"Error fetching candle data: {e}")
          return pd.DataFrame()
  \<close>
  The data source is external: its reply, the list of candles or the message of the
  exception raised, is an input of the model. The function returns the frame together
  with what it shows on the page.
\<close>

datatype ui_msg = St_Error string | St_Success string

definition fetch_candle_data :: "string + row list \<Rightarrow> ui_msg list \<times> row list" where
  "fetch_candle_data reply =
     (case reply of
        Inr data \<Rightarrow> ([], data)
      | Inl e \<Rightarrow> ([St_Error (''Error fetching candle data: '' @ e)], []))"

text \<open>
  \<^verbatim>\<open>
  if st.button("Check Signal"):
      with st.spinner("Fetching candle data..."):
          df = fetch_candle_data(kite, instrument_token, candle_datetime)
          signal = check_conditions(df)
          record_signal(signal)
          st.success(f"Signal: {signal}")
  \<close>
  One press of the button, in an environment that fixes what the data source replies,
  whether the store fails, and what the clock shows. The outcome is what the page
  shows, the exception that left the handler if one did, and the database afterwards.
\<close>

record env =
  kite_reply :: "string + row list"
  store_fault :: "(stage \<times> string) option"
  clock :: datetime

record outcome =
  shown :: "ui_msg list"
  raised :: "error option"
  db_after :: database

definition check_signal :: "env \<Rightarrow> database \<Rightarrow> outcome" where
  "check_signal e db =
     (let (msgs, df) = fetch_candle_data (kite_reply e);
          signal = check_conditions df
      in case record_signal (store_fault e) (clock e) signal db of
           Inl (err, db') \<Rightarrow> \<lparr>shown = msgs, raised = Some err, db_after = db'\<rparr>
         | Inr db' \<Rightarrow>
             \<lparr>shown = msgs @ [St_Success (''Signal: '' @ signal)], raised = None,
              db_after = db'\<rparr>)"

text \<open>
  The operations of the page on the log: a press of the button, and the display of the
  signal history, which only reads. A run starts on a database file without the table.
\<close>

datatype event = Check_Signal env | Show_History

definition step :: "database \<Rightarrow> event \<Rightarrow> database" where
  "step db ev = (case ev of Check_Signal e \<Rightarrow> db_after (check_signal e db) | Show_History \<Rightarrow> db)"

definition run :: "event list \<Rightarrow> database" where
  "run evs = foldl step None evs"

definition clocks_valid :: "event list \<Rightarrow> bool" where
  "clocks_valid evs =
     list_all (\<lambda>ev. case ev of Check_Signal e \<Rightarrow> valid_now (clock e) | Show_History \<Rightarrow> True) evs"

section \<open>Properties of the classifier\<close>

lemma check_conditions_Nil: "check_conditions [] = ''No Data''"
  by (simp add: check_conditions_def)

lemma check_conditions_Cons:
  "check_conditions (r # rs) =
     first_match rules
       \<lparr>c_open = col_open r, c_high = col_high r, c_low = col_low r, c_close = col_close r\<rparr>
       (col_close (last (r # rs)))"
  by (simp add: check_conditions_def rules_def rule2_def rule3_def rule4_def rule5_def
      rule6_def rule7_def Let_def)

lemma first_match_rules_labels: "first_match rules c pc \<in> labels"
  by (simp add: rules_def labels_def)

text \<open>
  Claim C2. Rule 6 (previous close == open and open == high gives SELL) is unreachable:
  whenever its condition holds, the condition of rule 5 (and so of rule 4 or rule 5)
  holds already, and the classifier with the rule-6 branch deleted returns the same
  label on every frame; the same holds of the rule table without its rule 6.
\<close>

theorem rule6_unreachable:
  "(\<forall>c pc. rule6 c pc \<longrightarrow> rule4 c pc \<or> rule5 c pc)
   \<and> (\<forall>df. check_conditions_without_rule6 df = check_conditions df)
   \<and> (\<forall>inp. classify rules_without_rule6 inp = classify rules inp)"
proof (intro conjI allI impI)
  fix c pc
  assume "rule6 c pc"
  then show "rule4 c pc \<or> rule5 c pc"
    by (simp add: rule6_def rule5_def)
next
  fix df
  show "check_conditions_without_rule6 df = check_conditions df"
    by (simp add: check_conditions_without_rule6_def check_conditions_def Let_def)
next
  fix inp
  show "classify rules_without_rule6 inp = classify rules inp"
    by (cases inp)
      (simp_all add: classify_def rules_def rules_without_rule6_def rule5_def rule6_def)
qed

theorem rule6_unreachable_witness:
  "rule6 \<lparr>c_open = Num 100, c_high = Num 100, c_low = Num 95, c_close = Num 98\<rparr> (Num 100)
   \<and> rule4 \<lparr>c_open = Num 100, c_high = Num 100, c_low = Num 95, c_close = Num 98\<rparr> (Num 100)
   \<and> check_conditions_without_rule6
        [\<lparr>col_date = \<lparr>year = 2024, month = 5, day = 6, hour = 9, minute = 30, second = 0, microsecond = 0\<rparr>,
          col_open = Num 100, col_high = Num 100, col_low = Num 95, col_close = Num 100,
          col_volume = 1200\<rparr>] = ''SELL''"
proof -
  let ?c = "\<lparr>c_open = Num 100, c_high = Num 100, c_low = Num 95, c_close = Num 98\<rparr>"
  let ?df = "[\<lparr>col_date = \<lparr>year = 2024, month = 5, day = 6, hour = 9, minute = 30, second = 0, microsecond = 0\<rparr>,
          col_open = Num 100, col_high = Num 100, col_low = Num 95, col_close = Num 100,
          col_volume = 1200\<rparr>]"
  have r6: "rule6 ?c (Num 100)"
    by (simp add: rule6_def py_eq_def)
  have "rule4 ?c (Num 100) \<or> rule5 ?c (Num 100)"
    using rule6_unreachable r6 by blast
  then have r4: "rule4 ?c (Num 100)"
    by (simp add: rule4_def rule5_def py_eq_def)
  have "check_conditions_without_rule6 ?df = check_conditions ?df"
    using rule6_unreachable by blast
  then have "check_conditions_without_rule6 ?df = ''SELL''"
    by (simp add: check_conditions_def py_eq_def)
  with r6 r4 show ?thesis by simp
qed

text \<open>
  Claim C3. On every input, a frame with rows (a candle with a previous close) or the
  empty frame (no data), the classifier returns one label, which is one of BUY, SELL,
  HOLD and No Data, and it is the label of the first rule that matches when the eight
  rules are tried in their priority order.
\<close>

theorem check_conditions_first_match:
  "check_conditions df = classify rules (window_input df) \<and> check_conditions df \<in> labels"
proof (cases df)
  case Nil
  then show ?thesis
    by (simp add: check_conditions_Nil classify_def window_input_def labels_def)
next
  case (Cons r rs)
  then show ?thesis
    by (simp add: check_conditions_Cons classify_def window_input_def first_match_rules_labels
        del: last.simps)
qed

text \<open>
  Claim C4. Every frame whose candle has open == low and whose previous close == open is
  classified BUY.
\<close>

theorem open_low_prev_close_buy:
  assumes "df \<noteq> []"
    and "py_eq (col_open (hd df)) (col_low (hd df))"
    and "py_eq (col_close (last df)) (col_open (hd df))"
  shows "check_conditions df = ''BUY''"
  using assms by (simp add: check_conditions_def)

theorem open_low_prev_close_buy_witness:
  "check_conditions
     [\<lparr>col_date = \<lparr>year = 2024, month = 5, day = 6, hour = 9, minute = 30, second = 0, microsecond = 0\<rparr>,
       col_open = Num 100, col_high = Num 105, col_low = Num 100, col_close = Num 103,
       col_volume = 900\<rparr>,
      \<lparr>col_date = \<lparr>year = 2024, month = 5, day = 6, hour = 9, minute = 45, second = 0, microsecond = 0\<rparr>,
       col_open = Num 103, col_high = Num 104, col_low = Num 99, col_close = Num 100,
       col_volume = 700\<rparr>] = ''BUY''"
  by (rule open_low_prev_close_buy) (simp_all add: py_eq_def)

text \<open>
  Claim C5. Every frame whose previous close == high and whose candle has open != low is
  classified SELL.
\<close>

theorem prev_close_high_sell:
  assumes "df \<noteq> []"
    and "py_eq (col_close (last df)) (col_high (hd df))"
    and "\<not> py_eq (col_open (hd df)) (col_low (hd df))"
  shows "check_conditions df = ''SELL''"
  using assms by (simp add: check_conditions_def)

theorem prev_close_high_sell_witness:
  "check_conditions
     [\<lparr>col_date = \<lparr>year = 2024, month = 5, day = 6, hour = 9, minute = 30, second = 0, microsecond = 0\<rparr>,
       col_open = Num 100, col_high = Num 100, col_low = Num 95, col_close = Num 98,
       col_volume = 900\<rparr>,
      \<lparr>col_date = \<lparr>year = 2024, month = 5, day = 6, hour = 9, minute = 45, second = 0, microsecond = 0\<rparr>,
       col_open = Num 98, col_high = Num 101, col_low = Num 97, col_close = Num 100,
       col_volume = 700\<rparr>] = ''SELL''"
  by (rule prev_close_high_sell) (simp_all add: py_eq_def)

text \<open>
  Claim C6. The empty frame, which is what the classifier receives when no candle data
  is available, is classified No Data; the classifier has no other argument that could
  change this.
\<close>

theorem no_data_label:
  "check_conditions [] = ''No Data'' \<and> classify rules (window_input []) = ''No Data''"
  by (simp add: check_conditions_def classify_def window_input_def)

text \<open>
  Claim C7. Every frame on which no equality rule matches (open != low, previous close
  != high, open != high and low != previous close) is classified HOLD; so is the candle
  with open 100, high 105, low 95 and close 102 with the previous close 101, which is a
  frame whose last row closes at 101.
\<close>

theorem no_rule_hold:
  "(\<forall>df. df \<noteq> []
        \<and> \<not> py_eq (col_open (hd df)) (col_low (hd df))
        \<and> \<not> py_eq (col_close (last df)) (col_high (hd df))
        \<and> \<not> py_eq (col_open (hd df)) (col_high (hd df))
        \<and> \<not> py_eq (col_low (hd df)) (col_close (last df))
        \<longrightarrow> check_conditions df = ''HOLD'')
   \<and> classify rules
        (Quote \<lparr>c_open = Num 100, c_high = Num 105, c_low = Num 95, c_close = Num 102\<rparr>
           (Num 101)) = ''HOLD''
   \<and> check_conditions
       [\<lparr>col_date = \<lparr>year = 2024, month = 5, day = 6, hour = 9, minute = 30, second = 0, microsecond = 0\<rparr>,
         col_open = Num 100, col_high = Num 105, col_low = Num 95, col_close = Num 102,
         col_volume = 900\<rparr>,
        \<lparr>col_date = \<lparr>year = 2024, month = 5, day = 6, hour = 9, minute = 45, second = 0, microsecond = 0\<rparr>,
         col_open = Num 102, col_high = Num 103, col_low = Num 99, col_close = Num 101,
         col_volume = 700\<rparr>] = ''HOLD''"
proof (intro conjI allI impI)
  fix df :: "row list"
  assume "df \<noteq> []
        \<and> \<not> py_eq (col_open (hd df)) (col_low (hd df))
        \<and> \<not> py_eq (col_close (last df)) (col_high (hd df))
        \<and> \<not> py_eq (col_open (hd df)) (col_high (hd df))
        \<and> \<not> py_eq (col_low (hd df)) (col_close (last df))"
  then show "check_conditions df = ''HOLD''"
    by (simp add: check_conditions_def)
next
  show "classify rules
        (Quote \<lparr>c_open = Num 100, c_high = Num 105, c_low = Num 95, c_close = Num 102\<rparr>
           (Num 101)) = ''HOLD''"
    by (simp add: classify_def rules_def rule2_def rule3_def rule4_def rule5_def rule6_def
        rule7_def py_eq_def)
next
  show "check_conditions
       [\<lparr>col_date = \<lparr>year = 2024, month = 5, day = 6, hour = 9, minute = 30, second = 0, microsecond = 0\<rparr>,
         col_open = Num 100, col_high = Num 105, col_low = Num 95, col_close = Num 102,
         col_volume = 900\<rparr>,
        \<lparr>col_date = \<lparr>year = 2024, month = 5, day = 6, hour = 9, minute = 45, second = 0, microsecond = 0\<rparr>,
         col_open = Num 102, col_high = Num 103, col_low = Num 99, col_close = Num 101,
         col_volume = 700\<rparr>] = ''HOLD''"
    by (simp add: check_conditions_def py_eq_def)
qed

theorem no_rule_hold_witness:
  "check_conditions
     [\<lparr>col_date = \<lparr>year = 2024, month = 5, day = 6, hour = 9, minute = 30, second = 0, microsecond = 0\<rparr>,
       col_open = Num 100, col_high = Num 105, col_low = Num 95, col_close = Num 102,
       col_volume = 900\<rparr>,
      \<lparr>col_date = \<lparr>year = 2024, month = 5, day = 6, hour = 9, minute = 45, second = 0, microsecond = 0\<rparr>,
       col_open = Num 101, col_high = Num 102, col_low = Num 100, col_close = Num 101,
       col_volume = 650\<rparr>,
      \<lparr>col_date = \<lparr>year = 2024, month = 5, day = 6, hour = 10, minute = 0, second = 0, microsecond = 0\<rparr>,
       col_open = Num 101, col_high = Num 104, col_low = Num 98, col_close = Num 99,
       col_volume = 800\<rparr>] = ''HOLD''"
proof -
  let ?df = "[\<lparr>col_date = \<lparr>year = 2024, month = 5, day = 6, hour = 9, minute = 30, second = 0, microsecond = 0\<rparr>,
       col_open = Num 100, col_high = Num 105, col_low = Num 95, col_close = Num 102,
       col_volume = 900\<rparr>,
      \<lparr>col_date = \<lparr>year = 2024, month = 5, day = 6, hour = 9, minute = 45, second = 0, microsecond = 0\<rparr>,
       col_open = Num 101, col_high = Num 102, col_low = Num 100, col_close = Num 101,
       col_volume = 650\<rparr>,
      \<lparr>col_date = \<lparr>year = 2024, month = 5, day = 6, hour = 10, minute = 0, second = 0, microsecond = 0\<rparr>,
       col_open = Num 101, col_high = Num 104, col_low = Num 98, col_close = Num 99,
       col_volume = 800\<rparr>]"
  have "?df \<noteq> []
        \<and> \<not> py_eq (col_open (hd ?df)) (col_low (hd ?df))
        \<and> \<not> py_eq (col_close (last ?df)) (col_high (hd ?df))
        \<and> \<not> py_eq (col_open (hd ?df)) (col_high (hd ?df))
        \<and> \<not> py_eq (col_low (hd ?df)) (col_close (last ?df))"
    by (simp add: py_eq_def)
  with no_rule_hold show ?thesis by blast
qed

text \<open>
  Claim C10. The label depends on four values only: open, high and low of the first row
  and close of the last row. Two non-empty frames that agree on these four receive the
  same label, whatever their other rows, dates, volumes and closes are; in particular
  the close of the first row of a frame with more than one row has no effect.
\<close>

theorem label_depends_on_four_values:
  "(\<forall>df1 df2. df1 \<noteq> [] \<and> df2 \<noteq> []
        \<and> col_open (hd df1) = col_open (hd df2)
        \<and> col_high (hd df1) = col_high (hd df2)
        \<and> col_low (hd df1) = col_low (hd df2)
        \<and> col_close (last df1) = col_close (last df2)
        \<longrightarrow> check_conditions df1 = check_conditions df2)
   \<and> (\<forall>r rs x. rs \<noteq> [] \<longrightarrow>
        check_conditions (r\<lparr>col_close := x\<rparr> # rs) = check_conditions (r # rs))"
  by (simp add: check_conditions_def)

theorem label_depends_on_four_values_witness:
  "check_conditions
     [\<lparr>col_date = \<lparr>year = 2024, month = 5, day = 6, hour = 9, minute = 30, second = 0, microsecond = 0\<rparr>,
       col_open = Num 100, col_high = Num 105, col_low = Num 95, col_close = Num 102,
       col_volume = 900\<rparr>,
      \<lparr>col_date = \<lparr>year = 2024, month = 5, day = 6, hour = 9, minute = 45, second = 0, microsecond = 0\<rparr>,
       col_open = Num 102, col_high = Num 103, col_low = Num 99, col_close = Num 95,
       col_volume = 700\<rparr>]
   = check_conditions
     [\<lparr>col_date = \<lparr>year = 2023, month = 1, day = 2, hour = 14, minute = 0, second = 0, microsecond = 0\<rparr>,
       col_open = Num 100, col_high = Num 105, col_low = Num 95, col_close = Num 95,
       col_volume = 10\<rparr>]
   \<and> check_conditions
     [\<lparr>col_date = \<lparr>year = 2024, month = 5, day = 6, hour = 9, minute = 30, second = 0, microsecond = 0\<rparr>,
       col_open = Num 100, col_high = Num 105, col_low = Num 95, col_close = Num 95,
       col_volume = 900\<rparr>,
      \<lparr>col_date = \<lparr>year = 2024, month = 5, day = 6, hour = 9, minute = 45, second = 0, microsecond = 0\<rparr>,
       col_open = Num 102, col_high = Num 103, col_low = Num 99, col_close = Num 101,
       col_volume = 700\<rparr>]
   = check_conditions
     [\<lparr>col_date = \<lparr>year = 2024, month = 5, day = 6, hour = 9, minute = 30, second = 0, microsecond = 0\<rparr>,
       col_open = Num 100, col_high = Num 105, col_low = Num 95, col_close = Num 102,
       col_volume = 900\<rparr>,
      \<lparr>col_date = \<lparr>year = 2024, month = 5, day = 6, hour = 9, minute = 45, second = 0, microsecond = 0\<rparr>,
       col_open = Num 102, col_high = Num 103, col_low = Num 99, col_close = Num 101,
       col_volume = 700\<rparr>]"
proof -
  let ?a = "[\<lparr>col_date = \<lparr>year = 2024, month = 5, day = 6, hour = 9, minute = 30, second = 0, microsecond = 0\<rparr>,
       col_open = Num 100, col_high = Num 105, col_low = Num 95, col_close = Num 102,
       col_volume = 900\<rparr>,
      \<lparr>col_date = \<lparr>year = 2024, month = 5, day = 6, hour = 9, minute = 45, second = 0, microsecond = 0\<rparr>,
       col_open = Num 102, col_high = Num 103, col_low = Num 99, col_close = Num 95,
       col_volume = 700\<rparr>]"
  let ?b = "[\<lparr>col_date = \<lparr>year = 2023, month = 1, day = 2, hour = 14, minute = 0, second = 0, microsecond = 0\<rparr>,
       col_open = Num 100, col_high = Num 105, col_low = Num 95, col_close = Num 95,
       col_volume = 10\<rparr>]"
  let ?r = "\<lparr>col_date = \<lparr>year = 2024, month = 5, day = 6, hour = 9, minute = 30, second = 0, microsecond = 0\<rparr>,
       col_open = Num 100, col_high = Num 105, col_low = Num 95, col_close = Num 102,
       col_volume = 900\<rparr>"
  let ?rs = "[\<lparr>col_date = \<lparr>year = 2024, month = 5, day = 6, hour = 9, minute = 45, second = 0, microsecond = 0\<rparr>,
       col_open = Num 102, col_high = Num 103, col_low = Num 99, col_close = Num 101,
       col_volume = 700\<rparr>]"
  have h: "?a \<noteq> [] \<and> ?b \<noteq> []
        \<and> col_open (hd ?a) = col_open (hd ?b)
        \<and> col_high (hd ?a) = col_high (hd ?b)
        \<and> col_low (hd ?a) = col_low (hd ?b)
        \<and> col_close (last ?a) = col_close (last ?b)"
    by simp
  have one: "check_conditions ?a = check_conditions ?b"
    using label_depends_on_four_values h by blast
  have "?rs \<noteq> []" by simp
  then have "check_conditions (?r\<lparr>col_close := Num 95\<rparr> # ?rs) = check_conditions (?r # ?rs)"
    using label_depends_on_four_values by blast
  then have two: "check_conditions
     [\<lparr>col_date = \<lparr>year = 2024, month = 5, day = 6, hour = 9, minute = 30, second = 0, microsecond = 0\<rparr>,
       col_open = Num 100, col_high = Num 105, col_low = Num 95, col_close = Num 95,
       col_volume = 900\<rparr>,
      \<lparr>col_date = \<lparr>year = 2024, month = 5, day = 6, hour = 9, minute = 45, second = 0, microsecond = 0\<rparr>,
       col_open = Num 102, col_high = Num 103, col_low = Num 99, col_close = Num 101,
       col_volume = 700\<rparr>] = check_conditions (?r # ?rs)"
    by simp
  from one two show ?thesis by simp
qed

section \<open>Properties of the timestamp\<close>

lemma is_digit_digit_char: "is_digit (digit_char d)"
proof -
  have "d mod 10 < length ''0123456789''" by simp
  then have "''0123456789'' ! (d mod 10) \<in> set ''0123456789''" by (rule nth_mem)
  then show ?thesis by (simp only: is_digit_def digit_char_def)
qed

lemma is_digit_zero: "is_digit (CHR ''0'')"
  by (simp add: is_digit_def)

lemma decimal_1: "n < 10 \<Longrightarrow> decimal n = [digit_char n]"
  by (subst decimal.simps) simp

lemma decimal_2: "10 \<le> n \<Longrightarrow> n < 100 \<Longrightarrow> decimal n = [digit_char (n div 10), digit_char (n mod 10)]"
  by (subst decimal.simps) (simp add: decimal_1)

lemma decimal_3: "100 \<le> n \<Longrightarrow> n < 1000 \<Longrightarrow>
  decimal n = [digit_char (n div 10 div 10), digit_char (n div 10 mod 10), digit_char (n mod 10)]"
  by (subst decimal.simps) (simp add: decimal_2)

lemma decimal_4: "1000 \<le> n \<Longrightarrow> n < 10000 \<Longrightarrow>
  decimal n = [digit_char (n div 10 div 10 div 10), digit_char (n div 10 div 10 mod 10),
               digit_char (n div 10 mod 10), digit_char (n mod 10)]"
  by (subst decimal.simps) (simp add: decimal_3)


lemma two_digits:
  assumes "n < 100"
  shows "\<exists>a b. zero_pad 2 (decimal n) = [a, b] \<and> is_digit a \<and> is_digit b"
proof (cases "n < 10")
  case True
  then have "zero_pad 2 (decimal n) = [CHR ''0'', digit_char n]"
    by (simp add: zero_pad_def decimal_1)
  then show ?thesis using is_digit_zero is_digit_digit_char by blast
next
  case False
  with assms have "zero_pad 2 (decimal n) = [digit_char (n div 10), digit_char (n mod 10)]"
    by (simp add: zero_pad_def decimal_2)
  then show ?thesis using is_digit_digit_char by blast
qed

lemma four_digits:
  assumes "1000 \<le> n" "n \<le> 9999"
  shows "\<exists>a b c d. decimal n = [a, b, c, d] \<and> is_digit a \<and> is_digit b \<and> is_digit c \<and> is_digit d"
proof -
  from assms have "decimal n = [digit_char (n div 10 div 10 div 10), digit_char (n div 10 div 10 mod 10),
               digit_char (n div 10 mod 10), digit_char (n mod 10)]"
    by (intro decimal_4) simp_all
  then show ?thesis using is_digit_digit_char by blast
qed

lemma matches_timestamp:
  assumes "is_digit y1" "is_digit y2" "is_digit y3" "is_digit y4"
    and "is_digit m1" "is_digit m2" "is_digit d1" "is_digit d2"
    and "is_digit h1" "is_digit h2" "is_digit i1" "is_digit i2"
    and "is_digit s1" "is_digit s2"
  shows "timestamp_format
     ([y1, y2, y3, y4] @ ''-'' @ [m1, m2] @ ''-'' @ [d1, d2] @ '' '' @ [h1, h2] @ '':''
        @ [i1, i2] @ '':'' @ [s1, s2])"
  using assms by (simp add: timestamp_format_def)

lemma strftime_format:
  assumes "valid_now dt"
  shows "timestamp_format (strftime dt)"
proof -
  from assms have b: "1000 \<le> year dt" "year dt \<le> 9999" "month dt < 100" "day dt < 100"
    "hour dt < 100" "minute dt < 100" "second dt < 100"
    by (simp_all add: valid_now_def)
  obtain y1 y2 y3 y4 where y: "decimal (year dt) = [y1, y2, y3, y4]"
    "is_digit y1" "is_digit y2" "is_digit y3" "is_digit y4"
    using four_digits[OF b(1,2)] by blast
  obtain m1 m2 where m: "zero_pad 2 (decimal (month dt)) = [m1, m2]" "is_digit m1" "is_digit m2"
    using two_digits[OF b(3)] by blast
  obtain d1 d2 where d: "zero_pad 2 (decimal (day dt)) = [d1, d2]" "is_digit d1" "is_digit d2"
    using two_digits[OF b(4)] by blast
  obtain h1 h2 where h: "zero_pad 2 (decimal (hour dt)) = [h1, h2]" "is_digit h1" "is_digit h2"
    using two_digits[OF b(5)] by blast
  obtain i1 i2 where i: "zero_pad 2 (decimal (minute dt)) = [i1, i2]" "is_digit i1" "is_digit i2"
    using two_digits[OF b(6)] by blast
  obtain s1 s2 where s: "zero_pad 2 (decimal (second dt)) = [s1, s2]" "is_digit s1" "is_digit s2"
    using two_digits[OF b(7)] by blast
  have "strftime dt = [y1, y2, y3, y4] @ ''-'' @ [m1, m2] @ ''-'' @ [d1, d2] @ '' '' @ [h1, h2] @ '':''
        @ [i1, i2] @ '':'' @ [s1, s2]"
    unfolding strftime_def y(1) m(1) d(1) h(1) i(1) s(1) ..
  then show ?thesis
    using matches_timestamp[OF y(2-5) m(2,3) d(2,3) h(2,3) i(2,3) s(2,3)] by simp
qed

lemma strftime_example:
  "strftime \<lparr>year = 2024, month = 5, day = 6, hour = 9, minute = 30, second = 0, microsecond = 0\<rparr> = ''2024-05-06 09:30:00''"
  by (simp add: strftime_def zero_pad_def decimal_1 decimal_2 decimal_4 digit_char_def)

lemma digit_value_digit_char: "digit_value (digit_char d) = Some (d mod 10)"
proof -
  have "map_of (zip ''0123456789'' [0..<10]) (''0123456789'' ! (d mod 10)) = Some ([0..<10] ! (d mod 10))"
    by (rule map_of_zip_nth) simp_all
  then show ?thesis
    by (simp only: digit_value_def digit_char_def) simp
qed

lemma digit_char_0: "digit_char 0 = CHR ''0''"
  by (simp add: digit_char_def)

lemma zero_pad_2_decimal:
  assumes "n < 100"
  shows "zero_pad 2 (decimal n) = [digit_char (n div 10), digit_char (n mod 10)]"
proof (cases "n < 10")
  case True
  then show ?thesis by (simp add: zero_pad_def decimal_1 digit_char_0)
next
  case False
  with assms show ?thesis by (simp add: zero_pad_def decimal_2)
qed

lemma digits_value_2:
  assumes "n < 100"
  shows "digits_value 0 [digit_char (n div 10), digit_char (n mod 10)] = Some n"
proof -
  from assms have "n div 10 < 10" by (intro less_mult_imp_div_less) simp
  then have "n div 10 mod 10 = n div 10" by simp
  then show ?thesis by (simp add: digit_value_digit_char)
qed

lemma digits_value_4:
  assumes "n < 10000"
  shows "digits_value 0
     [digit_char (n div 10 div 10 div 10), digit_char (n div 10 div 10 mod 10),
      digit_char (n div 10 mod 10), digit_char (n mod 10)] = Some n"
proof -
  from assms have "n div 10 < 1000" by (intro less_mult_imp_div_less) simp
  then have "n div 10 div 10 < 100" by (intro less_mult_imp_div_less) simp
  then have "n div 10 div 10 div 10 < 10" by (intro less_mult_imp_div_less) simp
  then have "n div 10 div 10 div 10 mod 10 = n div 10 div 10 div 10" by simp
  then show ?thesis by (simp add: digit_value_digit_char)
qed


lemma strftime_explicit:
  assumes "valid_now dt"
  shows "strftime dt =
     [digit_char (year dt div 10 div 10 div 10), digit_char (year dt div 10 div 10 mod 10),
      digit_char (year dt div 10 mod 10), digit_char (year dt mod 10), CHR ''-'',
      digit_char (month dt div 10), digit_char (month dt mod 10), CHR ''-'',
      digit_char (day dt div 10), digit_char (day dt mod 10), CHR '' '',
      digit_char (hour dt div 10), digit_char (hour dt mod 10), CHR '':'',
      digit_char (minute dt div 10), digit_char (minute dt mod 10), CHR '':'',
      digit_char (second dt div 10), digit_char (second dt mod 10)]"
proof -
  from assms have y: "1000 \<le> year dt" "year dt < 10000"
    by (simp_all add: valid_now_def)
  from assms have b: "month dt < 100" "day dt < 100" "hour dt < 100" "minute dt < 100"
    "second dt < 100"
    by (simp_all add: valid_now_def)
  show ?thesis
    unfolding strftime_def
    by (simp only: decimal_4[OF y] zero_pad_2_decimal[OF b(1)] zero_pad_2_decimal[OF b(2)]
        zero_pad_2_decimal[OF b(3)] zero_pad_2_decimal[OF b(4)] zero_pad_2_decimal[OF b(5)]
        append.simps)
qed

lemma parse_timestamp_strftime:
  assumes "valid_now dt"
  shows "parse_timestamp (strftime dt) = Some (dt\<lparr>microsecond := 0\<rparr>)"
proof -
  from assms have b: "year dt < 10000" "month dt < 100" "day dt < 100" "hour dt < 100"
    "minute dt < 100" "second dt < 100"
    by (simp_all add: valid_now_def)
  let ?dt = "\<lparr>year = year dt, month = month dt, day = day dt, hour = hour dt,
             minute = minute dt, second = second dt, microsecond = 0\<rparr>"
  from assms have v: "valid_now ?dt"
    by (simp add: valid_now_def)
  have e: "?dt = dt\<lparr>microsecond := 0\<rparr>"
    by simp
  have "parse_timestamp (strftime dt) = Some ?dt"
    unfolding strftime_explicit[OF assms] parse_timestamp_def number_at_def
    by (simp add: digits_value_4[OF b(1)] digits_value_2[OF b(2)] digits_value_2[OF b(3)]
        digits_value_2[OF b(4)] digits_value_2[OF b(5)] digits_value_2[OF b(6)] v
        del: digits_value.simps)
  with e show ?thesis by simp
qed


lemma parse_timestamp_out_of_range: "parse_timestamp ''9999-99-99 99:99:99'' = None"
proof -
  have n: "''0123456789'' ! 9 = CHR ''9''" by simp
  have "digit_char 9 = CHR ''9''" by (simp add: digit_char_def)
  then have d: "digit_value (CHR ''9'') = Some 9"
    using digit_value_digit_char[of 9] by simp
  show ?thesis
    by (simp add: parse_timestamp_def number_at_def d valid_now_def)
qed

section \<open>Properties of the signal log and of the button\<close>

lemma table_rows_simps: "table_rows None = []" "table_rows (Some rs) = rs"
  by (simp_all add: table_rows_def)

lemma record_signal_available:
  "record_signal None now s db = Inr (Some (table_rows db @ [(strftime now, s)]))"
  by (simp add: record_signal_def create_table_if_not_exists_def table_rows_simps)

lemma record_signal_fault:
  "\<exists>db'. record_signal (Some (st, m)) now s db = Inl (Sqlite_Error st m, db')
         \<and> table_rows db' = table_rows db"
  by (cases st) (simp_all add: record_signal_def create_table_if_not_exists_def table_rows_simps)

lemma fetch_candle_data_failure:
  "fetch_candle_data (Inl m) = ([St_Error (''Error fetching candle data: '' @ m)], [])"
  by (simp add: fetch_candle_data_def)

lemma check_signal_available:
  assumes "store_fault e = None"
  shows "check_signal e db =
     \<lparr>shown = fst (fetch_candle_data (kite_reply e))
         @ [St_Success (''Signal: '' @ check_conditions (snd (fetch_candle_data (kite_reply e))))],
      raised = None,
      db_after = Some (table_rows db
         @ [(strftime (clock e), check_conditions (snd (fetch_candle_data (kite_reply e))))])\<rparr>"
  using assms by (simp add: check_signal_def record_signal_available split_beta Let_def)

lemma check_signal_fault:
  assumes "store_fault e = Some (st, m)"
  shows "shown (check_signal e db) = fst (fetch_candle_data (kite_reply e))
       \<and> raised (check_signal e db) = Some (Sqlite_Error st m)
       \<and> table_rows (db_after (check_signal e db)) = table_rows db"
proof -
  obtain db' where r: "record_signal (Some (st, m)) (clock e)
      (check_conditions (snd (fetch_candle_data (kite_reply e)))) db = Inl (Sqlite_Error st m, db')"
    and t: "table_rows db' = table_rows db"
    using record_signal_fault by blast
  show ?thesis
    using assms r t by (simp add: check_signal_def split_beta Let_def)
qed

lemma fetch_shows_no_success: "St_Success x \<notin> set (fst (fetch_candle_data reply))"
  by (cases reply) (simp_all add: fetch_candle_data_def)

lemma check_conditions_labels: "check_conditions df \<in> labels"
  by (simp add: check_conditions_def labels_def Let_def)

lemma step_check_signal_available:
  assumes "store_fault e = None"
  shows "table_rows (step db (Check_Signal e)) =
     table_rows db
       @ [(strftime (clock e), check_conditions (snd (fetch_candle_data (kite_reply e))))]"
  using assms by (simp add: step_def check_signal_available table_rows_simps)

lemma step_check_signal_fault:
  assumes "store_fault e = Some f"
  shows "table_rows (step db (Check_Signal e)) = table_rows db"
proof -
  obtain st m where "f = (st, m)" by (cases f)
  with assms have "table_rows (db_after (check_signal e db)) = table_rows db"
    using check_signal_fault by blast
  then show ?thesis by (simp add: step_def)
qed

lemma step_show_history: "step db Show_History = db"
  by (simp add: step_def)

lemma step_prefix: "prefix (table_rows db) (table_rows (step db ev))"
proof (cases ev)
  case Show_History
  then show ?thesis by (simp add: step_show_history)
next
  case (Check_Signal e)
  then show ?thesis
    by (cases "store_fault e") (simp_all add: step_check_signal_available step_check_signal_fault)
qed

lemma foldl_step_prefix: "prefix (table_rows db) (table_rows (foldl step db evs))"
proof (induction evs arbitrary: db)
  case Nil
  show ?case by simp
next
  case (Cons ev evs)
  have "prefix (table_rows db) (table_rows (step db ev))" by (rule step_prefix)
  also have "prefix (table_rows (step db ev)) (table_rows (foldl step (step db ev) evs))"
    by (rule Cons.IH)
  finally show ?case by simp
qed

lemma foldl_step_rows:
  assumes "r \<in> set (table_rows (foldl step db evs))"
  shows "r \<in> set (table_rows db)
       \<or> (\<exists>e. Check_Signal e \<in> set evs \<and> store_fault e = None
             \<and> r = (strftime (clock e), check_conditions (snd (fetch_candle_data (kite_reply e)))))"
  using assms
proof (induction evs arbitrary: db)
  case Nil
  then show ?case by simp
next
  case (Cons ev evs)
  from Cons.prems have "r \<in> set (table_rows (foldl step (step db ev) evs))" by simp
  then have "r \<in> set (table_rows (step db ev))
       \<or> (\<exists>e. Check_Signal e \<in> set evs \<and> store_fault e = None
             \<and> r = (strftime (clock e), check_conditions (snd (fetch_candle_data (kite_reply e)))))"
    by (rule Cons.IH)
  then show ?case
  proof
    assume in_step: "r \<in> set (table_rows (step db ev))"
    show ?thesis
    proof (cases ev)
      case Show_History
      with in_step show ?thesis by (simp add: step_show_history)
    next
      case (Check_Signal e)
      show ?thesis
      proof (cases "store_fault e")
        case None
        with in_step Check_Signal show ?thesis
          by (auto simp: step_check_signal_available)
      next
        case (Some f)
        with in_step Check_Signal show ?thesis
          by (simp add: step_check_signal_fault)
      qed
    qed
  next
    assume "\<exists>e. Check_Signal e \<in> set evs \<and> store_fault e = None
             \<and> r = (strftime (clock e), check_conditions (snd (fetch_candle_data (kite_reply e))))"
    then show ?thesis by auto
  qed
qed

lemma clocks_valid_press:
  assumes "clocks_valid evs" and "Check_Signal e \<in> set evs"
  shows "valid_now (clock e)"
  using assms by (auto simp: clocks_valid_def list_all_iff)

lemma record_signals_rows:
  "record_signals xs db = Inr (if xs = [] then db
       else Some (table_rows db @ map (\<lambda>(now, s). (strftime now, s)) xs))"
proof (induction xs arbitrary: db)
  case Nil
  show ?case by simp
next
  case (Cons x xs)
  obtain now s where x: "x = (now, s)" by (cases x)
  show ?case
    by (simp add: x record_signal_available Cons.IH table_rows_simps)
qed

text \<open>
  Claim C1, as amended. A failure of the candle data source is shown as an error message,
  and the press of the button goes on: the empty frame is classified No Data and, with
  the store available, one record (timestamp, No Data) is appended and the signal is
  reported. A failure of the store leaves the handler as an exception, no signal is
  reported, and the rows of the log are the rows before the press.
\<close>

theorem external_failure_outcome:
  "(\<forall>e db m. kite_reply e = Inl m \<and> store_fault e = None \<longrightarrow>
      check_signal e db =
        \<lparr>shown = [St_Error (''Error fetching candle data: '' @ m),
                  St_Success ''Signal: No Data''],
         raised = None,
         db_after = Some (table_rows db @ [(strftime (clock e), ''No Data'')])\<rparr>)
   \<and> (\<forall>e db m. kite_reply e = Inl m \<longrightarrow>
        St_Error (''Error fetching candle data: '' @ m) \<in> set (shown (check_signal e db)))
   \<and> (\<forall>e db st m. store_fault e = Some (st, m) \<longrightarrow>
        raised (check_signal e db) = Some (Sqlite_Error st m)
        \<and> table_rows (db_after (check_signal e db)) = table_rows db
        \<and> (\<forall>x. St_Success x \<notin> set (shown (check_signal e db))))"
proof (intro conjI allI impI)
  fix e :: env and db m
  assume "kite_reply e = Inl m \<and> store_fault e = None"
  then show "check_signal e db =
        \<lparr>shown = [St_Error (''Error fetching candle data: '' @ m),
                  St_Success ''Signal: No Data''],
         raised = None,
         db_after = Some (table_rows db @ [(strftime (clock e), ''No Data'')])\<rparr>"
    by (simp add: check_signal_available fetch_candle_data_failure check_conditions_Nil)
next
  fix e :: env and db m
  assume k: "kite_reply e = Inl m"
  show "St_Error (''Error fetching candle data: '' @ m) \<in> set (shown (check_signal e db))"
  proof (cases "store_fault e")
    case None
    with k show ?thesis
      by (simp add: check_signal_available fetch_candle_data_failure)
  next
    case (Some f)
    obtain st m' where "f = (st, m')" by (cases f)
    with Some have "shown (check_signal e db) = fst (fetch_candle_data (kite_reply e))"
      using check_signal_fault by blast
    with k show ?thesis by (simp add: fetch_candle_data_failure)
  qed
next
  fix e :: env and db st m
  assume f: "store_fault e = Some (st, m)"
  from check_signal_fault[OF f, of db]
  show "raised (check_signal e db) = Some (Sqlite_Error st m)" by blast
next
  fix e :: env and db st m
  assume f: "store_fault e = Some (st, m)"
  from check_signal_fault[OF f, of db]
  show "table_rows (db_after (check_signal e db)) = table_rows db" by blast
next
  fix e :: env and db st m x
  assume f: "store_fault e = Some (st, m)"
  from check_signal_fault[OF f, of db]
  have "shown (check_signal e db) = fst (fetch_candle_data (kite_reply e))" by blast
  then show "St_Success x \<notin> set (shown (check_signal e db))"
    by (simp add: fetch_shows_no_success)
qed

theorem external_failure_outcome_witness:
  "db_after (check_signal
       \<lparr>kite_reply = Inl ''timeout'', store_fault = None,
        clock = \<lparr>year = 2024, month = 5, day = 6, hour = 9, minute = 30, second = 0, microsecond = 0\<rparr>\<rparr>
       (Some [(''2024-05-06 09:15:00'', ''HOLD'')]))
     = Some [(''2024-05-06 09:15:00'', ''HOLD''), (''2024-05-06 09:30:00'', ''No Data'')]
   \<and> St_Error ''Error fetching candle data: timeout''
       \<in> set (shown (check_signal
           \<lparr>kite_reply = Inl ''timeout'', store_fault = Some (Commit, ''database is locked''),
            clock = \<lparr>year = 2024, month = 5, day = 6, hour = 9, minute = 30, second = 0, microsecond = 0\<rparr>\<rparr>
           (Some [(''2024-05-06 09:15:00'', ''HOLD'')])))
   \<and> raised (check_signal
       \<lparr>kite_reply = Inl ''timeout'', store_fault = Some (Commit, ''database is locked''),
        clock = \<lparr>year = 2024, month = 5, day = 6, hour = 9, minute = 30, second = 0, microsecond = 0\<rparr>\<rparr>
       (Some [(''2024-05-06 09:15:00'', ''HOLD'')]))
     = Some (Sqlite_Error Commit ''database is locked'')
   \<and> table_rows (db_after (check_signal
       \<lparr>kite_reply = Inl ''timeout'', store_fault = Some (Commit, ''database is locked''),
        clock = \<lparr>year = 2024, month = 5, day = 6, hour = 9, minute = 30, second = 0, microsecond = 0\<rparr>\<rparr>
       (Some [(''2024-05-06 09:15:00'', ''HOLD'')])))
     = [(''2024-05-06 09:15:00'', ''HOLD'')]"
proof -
  let ?t = "\<lparr>year = 2024, month = 5, day = 6, hour = 9, minute = 30, second = 0, microsecond = 0\<rparr>"
  let ?a = "\<lparr>kite_reply = Inl ''timeout'', store_fault = None, clock = ?t\<rparr>"
  let ?b = "\<lparr>kite_reply = Inl ''timeout'', store_fault = Some (Commit, ''database is locked''),
             clock = ?t\<rparr>"
  let ?db = "Some [(''2024-05-06 09:15:00'', ''HOLD'')]"
  have a: "kite_reply ?a = Inl ''timeout'' \<and> store_fault ?a = None" by simp
  have b: "kite_reply ?b = Inl ''timeout''" by simp
  have c: "store_fault ?b = Some (Commit, ''database is locked'')" by simp
  have "check_signal ?a ?db =
        \<lparr>shown = [St_Error (''Error fetching candle data: '' @ ''timeout''),
                  St_Success ''Signal: No Data''],
         raised = None,
         db_after = Some (table_rows ?db @ [(strftime (clock ?a), ''No Data'')])\<rparr>"
    using external_failure_outcome a by blast
  then have one: "db_after (check_signal ?a ?db)
      = Some [(''2024-05-06 09:15:00'', ''HOLD''), (''2024-05-06 09:30:00'', ''No Data'')]"
    by (simp add: table_rows_simps strftime_example)
  have "St_Error (''Error fetching candle data: '' @ ''timeout'') \<in> set (shown (check_signal ?b ?db))"
    using external_failure_outcome b by blast
  then have two: "St_Error ''Error fetching candle data: timeout'' \<in> set (shown (check_signal ?b ?db))"
    by simp
  have three: "raised (check_signal ?b ?db) = Some (Sqlite_Error Commit ''database is locked'')
      \<and> table_rows (db_after (check_signal ?b ?db)) = table_rows ?db"
    using external_failure_outcome c by blast
  from one two three show ?thesis by (simp add: table_rows_simps)
qed

text \<open>
  As the specification words it (no classification and no record when the fetch fails),
  the claim does not hold: with a failing data source and an empty log, the press of the
  button appends the record below and reports the signal No Data.
\<close>

theorem fetch_failure_is_logged:
  "check_signal
     \<lparr>kite_reply = Inl ''timeout'', store_fault = None,
      clock = \<lparr>year = 2024, month = 5, day = 6, hour = 9, minute = 30, second = 0, microsecond = 0\<rparr>\<rparr>
     (Some [])
   = \<lparr>shown = [St_Error ''Error fetching candle data: timeout'', St_Success ''Signal: No Data''],
      raised = None,
      db_after = Some [(''2024-05-06 09:30:00'', ''No Data'')]\<rparr>"
  by (simp add: check_signal_available fetch_candle_data_failure check_conditions_Nil
      strftime_example table_rows_simps)

text \<open>
  Every successful append followed by a read of the history yields the rows that were
  there followed by the new record, and one append or more from any database, with or
  without the table, yield the old rows followed by the new records in order.
\<close>

lemma record_signal_then_read_history:
  "\<exists>db'. record_signal None now s db = Inr db'
     \<and> read_history db' = Inr (table_rows db @ [(strftime now, s)])"
  by (simp add: record_signal_available read_history_def)

lemma record_signals_then_read_history:
  "\<exists>db'. record_signals (x # xs) db = Inr db'
     \<and> read_history db' = Inr (table_rows db @ map (\<lambda>(now, s). (strftime now, s)) (x # xs))"
  by (simp add: record_signals_rows read_history_def)

text \<open>
  Claim C8. An append followed by a listing yields the earlier records followed by the
  new one, and N sequential appends from an empty log leave a listing of length N. The
  two lemmas above prove this of every append and of every N from 1 on. The code departs
  from the claim at N = 0 on a database file that has no table yet, the state in which
  every run starts: no append has created the table, the read path does not create it
  either, and the listing raises instead of returning the empty sequence; the statement
  that creates the table in \<^const>\<open>record_signal\<close> would have made it return the empty
  list.
\<close>

theorem read_history_on_fresh_database:
  "run [] = None
   \<and> record_signals [] None = Inr None
   \<and> read_history None = Inl No_Such_Table
   \<and> read_history (create_table_if_not_exists None) = Inr []"
  by (simp add: run_def read_history_def create_table_if_not_exists_def table_rows_simps)

text \<open>
  Claim C9. In every state of the log reached from the database without the table by
  presses of the button and displays of the history, every record was written by a press
  of the run whose store was available: its timestamp is the clock of that press printed
  as YYYY-MM-DD HH:MM:SS, which read back gives that clock to the second, without its
  microseconds, and its label is the label of the frame fetched by that press, one of
  BUY, SELL, HOLD and No Data. A press with the store available appends exactly that
  record after the rows that were there, a press with a failing store and a display of
  the history leave the rows as they were, so no operation updates or deletes a record
  and the log of a run is a prefix of the log of every longer run. The clock is the
  local date and time the system reports, with a four-digit year.
\<close>

theorem signal_log_invariant:
  "(\<forall>dt. valid_now dt \<longrightarrow>
        timestamp_format (strftime dt)
        \<and> parse_timestamp (strftime dt) = Some (dt\<lparr>microsecond := 0\<rparr>))
   \<and> (\<forall>evs. clocks_valid evs \<longrightarrow>
        (\<forall>r \<in> set (table_rows (run evs)).
           \<exists>e. Check_Signal e \<in> set evs \<and> store_fault e = None
             \<and> fst r = strftime (clock e)
             \<and> timestamp_format (fst r)
             \<and> parse_timestamp (fst r) = Some ((clock e)\<lparr>microsecond := 0\<rparr>)
             \<and> snd r = check_conditions (snd (fetch_candle_data (kite_reply e)))
             \<and> snd r \<in> labels))
   \<and> (\<forall>db e. store_fault e = None \<longrightarrow>
        table_rows (step db (Check_Signal e)) =
          table_rows db
            @ [(strftime (clock e), check_conditions (snd (fetch_candle_data (kite_reply e))))])
   \<and> (\<forall>db e f. store_fault e = Some f \<longrightarrow>
        table_rows (step db (Check_Signal e)) = table_rows db)
   \<and> (\<forall>db. step db Show_History = db)
   \<and> (\<forall>db ev. prefix (table_rows db) (table_rows (step db ev)))
   \<and> (\<forall>evs more. prefix (table_rows (run evs)) (table_rows (run (evs @ more))))"
proof (intro conjI allI impI ballI)
  fix dt
  assume "valid_now dt"
  then show "timestamp_format (strftime dt)" by (rule strftime_format)
next
  fix dt
  assume "valid_now dt"
  then show "parse_timestamp (strftime dt) = Some (dt\<lparr>microsecond := 0\<rparr>)"
    by (rule parse_timestamp_strftime)
next
  fix evs r
  assume v: "clocks_valid evs" and r: "r \<in> set (table_rows (run evs))"
  from r have "r \<in> set (table_rows None)
       \<or> (\<exists>e. Check_Signal e \<in> set evs \<and> store_fault e = None
             \<and> r = (strftime (clock e), check_conditions (snd (fetch_candle_data (kite_reply e)))))"
    unfolding run_def by (rule foldl_step_rows)
  then obtain e where e: "Check_Signal e \<in> set evs" "store_fault e = None"
    "r = (strftime (clock e), check_conditions (snd (fetch_candle_data (kite_reply e))))"
    by (auto simp: table_rows_simps)
  from v e(1) have c: "valid_now (clock e)" by (rule clocks_valid_press)
  have "fst r = strftime (clock e)
      \<and> timestamp_format (fst r)
      \<and> parse_timestamp (fst r) = Some ((clock e)\<lparr>microsecond := 0\<rparr>)
      \<and> snd r = check_conditions (snd (fetch_candle_data (kite_reply e)))
      \<and> snd r \<in> labels"
    using e(3) strftime_format[OF c] parse_timestamp_strftime[OF c] check_conditions_labels
    by simp
  with e(1,2) show "\<exists>e. Check_Signal e \<in> set evs \<and> store_fault e = None
             \<and> fst r = strftime (clock e)
             \<and> timestamp_format (fst r)
             \<and> parse_timestamp (fst r) = Some ((clock e)\<lparr>microsecond := 0\<rparr>)
             \<and> snd r = check_conditions (snd (fetch_candle_data (kite_reply e)))
             \<and> snd r \<in> labels"
    by blast
next
  fix db and e :: env
  assume "store_fault e = None"
  then show "table_rows (step db (Check_Signal e)) =
          table_rows db
            @ [(strftime (clock e), check_conditions (snd (fetch_candle_data (kite_reply e))))]"
    by (rule step_check_signal_available)
next
  fix db and e :: env and f
  assume "store_fault e = Some f"
  then show "table_rows (step db (Check_Signal e)) = table_rows db"
    by (rule step_check_signal_fault)
next
  fix db
  show "step db Show_History = db" by (rule step_show_history)
next
  fix db ev
  show "prefix (table_rows db) (table_rows (step db ev))" by (rule step_prefix)
next
  fix evs more
  show "prefix (table_rows (run evs)) (table_rows (run (evs @ more)))"
    by (simp add: run_def foldl_step_prefix)
qed

theorem signal_log_invariant_witness:
  "clocks_valid
     [Check_Signal
        \<lparr>kite_reply = Inr [\<lparr>col_date = \<lparr>year = 2024, month = 5, day = 6, hour = 9, minute = 15,
              second = 0, microsecond = 0\<rparr>,
            col_open = Num 100, col_high = Num 105, col_low = Num 100, col_close = Num 103,
            col_volume = 900\<rparr>],
         store_fault = None,
         clock = \<lparr>year = 2024, month = 5, day = 6, hour = 9, minute = 30, second = 0,
           microsecond = 250000\<rparr>\<rparr>,
      Show_History,
      Check_Signal
        \<lparr>kite_reply = Inl ''timeout'', store_fault = Some (Insert, ''disk I/O error''),
         clock = \<lparr>year = 2024, month = 5, day = 6, hour = 9, minute = 30, second = 41,
           microsecond = 0\<rparr>\<rparr>,
      Check_Signal
        \<lparr>kite_reply = Inl ''timeout'', store_fault = None,
         clock = \<lparr>year = 2024, month = 12, day = 31, hour = 23, minute = 59, second = 7,
           microsecond = 999999\<rparr>\<rparr>]
   \<and> table_rows (run
     [Check_Signal
        \<lparr>kite_reply = Inr [\<lparr>col_date = \<lparr>year = 2024, month = 5, day = 6, hour = 9, minute = 15,
              second = 0, microsecond = 0\<rparr>,
            col_open = Num 100, col_high = Num 105, col_low = Num 100, col_close = Num 103,
            col_volume = 900\<rparr>],
         store_fault = None,
         clock = \<lparr>year = 2024, month = 5, day = 6, hour = 9, minute = 30, second = 0,
           microsecond = 250000\<rparr>\<rparr>,
      Show_History,
      Check_Signal
        \<lparr>kite_reply = Inl ''timeout'', store_fault = Some (Insert, ''disk I/O error''),
         clock = \<lparr>year = 2024, month = 5, day = 6, hour = 9, minute = 30, second = 41,
           microsecond = 0\<rparr>\<rparr>,
      Check_Signal
        \<lparr>kite_reply = Inl ''timeout'', store_fault = None,
         clock = \<lparr>year = 2024, month = 12, day = 31, hour = 23, minute = 59, second = 7,
           microsecond = 999999\<rparr>\<rparr>])
     = [(''2024-05-06 09:30:00'', ''BUY''), (''2024-12-31 23:59:07'', ''No Data'')]
   \<and> list_all (\<lambda>r. timestamp_format (fst r) \<and> snd r \<in> labels)
       [(''2024-05-06 09:30:00'', ''BUY''), (''2024-12-31 23:59:07'', ''No Data'')]
   \<and> parse_timestamp ''2024-05-06 09:30:00''
     = Some \<lparr>year = 2024, month = 5, day = 6, hour = 9, minute = 30, second = 0,
         microsecond = 0\<rparr>
   \<and> parse_timestamp ''2024-12-31 23:59:07''
     = Some \<lparr>year = 2024, month = 12, day = 31, hour = 23, minute = 59, second = 7,
         microsecond = 0\<rparr>"
proof -
  let ?e1 = "\<lparr>kite_reply = Inr [\<lparr>col_date = \<lparr>year = 2024, month = 5, day = 6, hour = 9, minute = 15,
              second = 0, microsecond = 0\<rparr>,
            col_open = Num 100, col_high = Num 105, col_low = Num 100, col_close = Num 103,
            col_volume = 900\<rparr>],
         store_fault = None,
         clock = \<lparr>year = 2024, month = 5, day = 6, hour = 9, minute = 30, second = 0,
           microsecond = 250000\<rparr>\<rparr>"
  let ?e2 = "\<lparr>kite_reply = Inl ''timeout'', store_fault = Some (Insert, ''disk I/O error''),
         clock = \<lparr>year = 2024, month = 5, day = 6, hour = 9, minute = 30, second = 41,
           microsecond = 0\<rparr>\<rparr>"
  let ?e3 = "\<lparr>kite_reply = Inl ''timeout'', store_fault = None,
         clock = \<lparr>year = 2024, month = 12, day = 31, hour = 23, minute = 59, second = 7,
           microsecond = 999999\<rparr>\<rparr>"
  let ?evs = "[Check_Signal ?e1, Show_History, Check_Signal ?e2, Check_Signal ?e3]"
  let ?t1 = "\<lparr>year = 2024, month = 5, day = 6, hour = 9, minute = 30, second = 0,
           microsecond = 250000\<rparr>"
  let ?t3 = "\<lparr>year = 2024, month = 12, day = 31, hour = 23, minute = 59, second = 7,
           microsecond = 999999\<rparr>"
  have s1: "strftime ?t1 = ''2024-05-06 09:30:00''"
    by (simp add: strftime_def zero_pad_def decimal_1 decimal_2 decimal_4 digit_char_def)
  have s3: "strftime ?t3 = ''2024-12-31 23:59:07''"
    by (simp add: strftime_def zero_pad_def decimal_1 decimal_2 decimal_4 digit_char_def)
  have v1: "valid_now ?t1" and v3: "valid_now ?t3"
    by (simp_all add: valid_now_def)
  have v: "clocks_valid ?evs"
    by (simp add: clocks_valid_def valid_now_def)
  have a1: "store_fault ?e1 = None" and a3: "store_fault ?e3 = None"
    and a2: "store_fault ?e2 = Some (Insert, ''disk I/O error'')"
    by simp_all
  note inv = signal_log_invariant
  note press = inv [THEN conjunct2, THEN conjunct2, THEN conjunct1, rule_format]
  note fault = inv [THEN conjunct2, THEN conjunct2, THEN conjunct2, THEN conjunct1, rule_format]
  note history = inv [THEN conjunct2, THEN conjunct2, THEN conjunct2, THEN conjunct2,
      THEN conjunct1, rule_format]
  have r: "table_rows (run ?evs)
      = [(''2024-05-06 09:30:00'', ''BUY''), (''2024-12-31 23:59:07'', ''No Data'')]"
    unfolding run_def foldl.simps history press [OF a3] fault [OF a2] press [OF a1]
    by (simp add: table_rows_simps s1 s3 fetch_candle_data_def check_conditions_def py_eq_def)
  have "\<forall>r \<in> set (table_rows (run ?evs)). \<exists>e. Check_Signal e \<in> set ?evs \<and> store_fault e = None
             \<and> fst r = strftime (clock e)
             \<and> timestamp_format (fst r)
             \<and> parse_timestamp (fst r) = Some ((clock e)\<lparr>microsecond := 0\<rparr>)
             \<and> snd r = check_conditions (snd (fetch_candle_data (kite_reply e)))
             \<and> snd r \<in> labels"
    by (rule inv [THEN conjunct2, THEN conjunct1, THEN spec, THEN mp, OF v])
  then have "\<forall>r \<in> set (table_rows (run ?evs)). timestamp_format (fst r) \<and> snd r \<in> labels"
    by blast
  then have l: "list_all (\<lambda>r. timestamp_format (fst r) \<and> snd r \<in> labels)
       [(''2024-05-06 09:30:00'', ''BUY''), (''2024-12-31 23:59:07'', ''No Data'')]"
    unfolding r by (simp only: list_all_iff)
  have "parse_timestamp (strftime ?t1) = Some (?t1\<lparr>microsecond := 0\<rparr>)"
    using inv v1 by blast
  then have p1: "parse_timestamp ''2024-05-06 09:30:00''
     = Some \<lparr>year = 2024, month = 5, day = 6, hour = 9, minute = 30, second = 0,
         microsecond = 0\<rparr>"
    by (simp add: s1)
  have "parse_timestamp (strftime ?t3) = Some (?t3\<lparr>microsecond := 0\<rparr>)"
    using inv v3 by blast
  then have p3: "parse_timestamp ''2024-12-31 23:59:07''
     = Some \<lparr>year = 2024, month = 12, day = 31, hour = 23, minute = 59, second = 7,
         microsecond = 0\<rparr>"
    by (simp add: s3)
  from v r l p1 p3 show ?thesis by (intro conjI)
qed

end
